theory Spec2Isabelle
  imports Main "HOL-Library.Word"
begin

unbundle bit_operations_syntax

section \<open>The WAL dump command (tool package, \<open>runDump\<close>)\<close>

text \<open>
  The embedding follows \<^verbatim>\<open>func (w *walT) runDump\<close>. The command only reads and
  prints, so its effect is the text it writes: a list of writes, each tagged with the
  stream it goes to, in program order. One element is the text one step of the code
  writes: the path header, a batch summary line, an entry line (the \<^verbatim>\<open>Fprintf\<close>
  calls of one iteration of the entry loop, concatenated), an end-of-data notice or an
  error message. \<open>runDump\<close> has no \<^verbatim>\<open>recover\<close>: a panic in what it calls ends the
  whole run, and is the last element of the list.
\<close>

subsection \<open>Data\<close>

text \<open>Go's \<^verbatim>\<open>[]byte\<close>: a list of 8-bit characters.\<close>

type_synonym bytes = string

text \<open>
  Go's \<^verbatim>\<open>error\<close> values. The record package's two sentinels are compared by identity
  in \<open>runDump\<close>; every other error is known by its message only.
\<close>

datatype error = ErrZeroedChunk | ErrInvalidChunk | ErrOther string

text \<open>
  Modelled from the spec: the type \<^verbatim>\<open>base.InternalKeyKind\<close> is declared outside the
  file; these are the twelve kinds of the closed enumeration, which are also the twelve
  constants the \<^verbatim>\<open>switch kind\<close> of \<open>runDump\<close> names.
\<close>

datatype InternalKeyKind =
    InternalKeyKindDelete
  | InternalKeyKindSet
  | InternalKeyKindMerge
  | InternalKeyKindLogData
  | InternalKeyKindIngestSST
  | InternalKeyKindSingleDelete
  | InternalKeyKindSetWithDelete
  | InternalKeyKindRangeDelete
  | InternalKeyKindRangeKeySet
  | InternalKeyKindRangeKeyUnset
  | InternalKeyKindRangeKeyDelete
  | InternalKeyKindDeleteSized

text \<open>
  Modelled from the spec: \<^verbatim>\<open>base.InternalKey\<close> and \<^verbatim>\<open>base.MakeInternalKey\<close> are declared
  outside the file; the key handed to the range-key decoder is the triple of user key,
  sequence number and kind that \<open>MakeInternalKey\<close> is called with.
\<close>

record InternalKey =
  UserKey :: bytes
  ikSeqNum :: "64 word"
  ikKind :: InternalKeyKind

definition MakeInternalKey :: "bytes \<Rightarrow> 64 word \<Rightarrow> InternalKeyKind \<Rightarrow> InternalKey" where
  "MakeInternalKey userKey seqNum kind = \<lparr>UserKey = userKey, ikSeqNum = seqNum, ikKind = kind\<rparr>"

text \<open>
  The entry cursor \<^verbatim>\<open>b.Reader()\<close> of a batch, as the results its \<^verbatim>\<open>Next\<close> gives one
  after the other: \<open>NextOk kind ukey value r\<close> is \<^verbatim>\<open>ok = true\<close> with \<open>r\<close> the cursor
  afterwards, \<open>NextEnd\<close> is \<^verbatim>\<open>ok = false, err = nil\<close> and \<open>NextErr err\<close> is
  \<^verbatim>\<open>ok = false, err != nil\<close>. \<open>NextPanic v\<close> is a call of \<^verbatim>\<open>Next\<close> that does not return
  but panics with the value \<open>v\<close>, as the cursor does on a payload cut inside an entry
  (an index out of range). A payload is finite and every entry takes bytes of it, so the
  run of results is finite.
\<close>

datatype BatchReader =
    NextEnd
  | NextErr error
  | NextPanic string
  | NextOk InternalKeyKind bytes bytes BatchReader

text \<open>
  A \<^verbatim>\<open>pebble.Batch\<close> after a successful \<^verbatim>\<open>SetRepr\<close>, as \<open>runDump\<close> sees it through
  \<^verbatim>\<open>Repr()\<close>, \<^verbatim>\<open>SeqNum()\<close> (uint64), \<^verbatim>\<open>Count()\<close> (uint32) and \<^verbatim>\<open>Reader()\<close>.
\<close>

record Batch =
  Repr :: bytes
  SeqNum :: "64 word"
  Count :: "32 word"
  Reader :: BatchReader

text \<open>
  The \<^verbatim>\<open>record.Reader\<close> of one file, as the results of the loop's
  \<^verbatim>\<open>rr.Offset(); rr.Next(); io.Copy(&buf, r)\<close> one after the other: \<open>RecNext offset buf rr\<close>
  is a record at \<open>offset\<close> whose payload \<open>buf\<close> was read without error, with \<open>rr\<close> the
  reader afterwards; \<open>RecErr offset err\<close> is a failure of \<open>Next\<close> or of the copy. A file
  is finite and every record takes bytes of it, so the reader fails after finitely many
  records (with \<^verbatim>\<open>io.EOF\<close> at the latest).
\<close>

datatype RecordReader =
    RecErr nat error
  | RecNext nat bytes RecordReader

text \<open>
  What a run leaves behind: writes to the two streams and, when it dies of a panic that
  nothing recovers, the panic's value (the Go runtime reports it and the process exits).
\<close>

datatype out = Stdout string | Stderr string | Panic string

text \<open>
  A run that panicked, and the sequence of two pieces of code: the second runs when the
  first has not panicked.
\<close>

fun panicked :: "out list \<Rightarrow> bool" where
  "panicked [] = False"
| "panicked (Panic v # outs) = True"
| "panicked (x # outs) = panicked outs"

definition andThen :: "out list \<Rightarrow> out list \<Rightarrow> out list" where
  "andThen outs outs' = (if panicked outs then outs else outs @ outs')"

text \<open>
  The receiver \<^verbatim>\<open>w *walT\<close>: the file system of \<^verbatim>\<open>w.opts.FS\<close>, the two formatter
  functions \<^verbatim>\<open>w.fmtKey.fn\<close> and \<^verbatim>\<open>w.fmtValue.fn\<close>, the default comparer's name and the
  comparers.
\<close>

record ('fs, 'c) walT =
  FS :: 'fs
  fmtKey :: "bytes \<Rightarrow> string"
  fmtValue :: "bytes \<Rightarrow> bytes \<Rightarrow> string"
  defaultComparer :: string
  comparers :: 'c

text \<open>
  What \<open>runDump\<close> calls and the file does not define, taken as parameters:
  \<^item> \<open>ParseFilename\<close>: \<^verbatim>\<open>base.ParseFilename\<close>, its file number and \<^verbatim>\<open>ok\<close> (the file
    type is discarded by \<open>runDump\<close>);
  \<^item> \<open>Open\<close>: \<^verbatim>\<open>vfs.FS.Open\<close>;
  \<^item> \<open>NewReader\<close>: \<^verbatim>\<open>record.NewReader\<close> on an open file and a file number;
  \<^item> \<open>SetRepr\<close>: \<^verbatim>\<open>pebble.Batch.SetRepr\<close> on a record's payload, an error or the batch;
  \<^item> \<open>rangekeyDecode\<close> and \<open>Pretty\<close>: \<^verbatim>\<open>rangekey.Decode\<close> and the span's \<^verbatim>\<open>Pretty\<close>;
  \<^item> \<open>kindString\<close>, \<open>fileNumString\<close> and \<open>Error\<close>: the \<^verbatim>\<open>String\<close> methods of
    \<^verbatim>\<open>base.InternalKeyKind\<close> and \<^verbatim>\<open>base.FileNum\<close> and the \<^verbatim>\<open>Error\<close> method of errors,
    which \<^verbatim>\<open>%s\<close> and \<^verbatim>\<open>%v\<close> print;
  \<^item> \<open>Quote\<close>: the \<^verbatim>\<open>%q\<close> verb of Go's \<^verbatim>\<open>fmt\<close> on a string;
  \<^item> \<open>keySetForComparer\<close> and \<open>valueSetForComparer\<close>: the formatter function in effect
    after \<^verbatim>\<open>setForComparer\<close>, from the comparer's name, the comparers and the function
    before.
\<close>

record ('fs, 'f, 'c, 's) pkgs =
  ParseFilename :: "'fs \<Rightarrow> string \<Rightarrow> 64 word \<times> bool"
  Open :: "'fs \<Rightarrow> string \<Rightarrow> error + 'f"
  NewReader :: "'f \<Rightarrow> 64 word \<Rightarrow> RecordReader"
  SetRepr :: "bytes \<Rightarrow> error + Batch"
  rangekeyDecode :: "InternalKey \<Rightarrow> bytes \<Rightarrow> error + 's"
  Pretty :: "'s \<Rightarrow> (bytes \<Rightarrow> string) \<Rightarrow> string"
  kindString :: "InternalKeyKind \<Rightarrow> string"
  fileNumString :: "64 word \<Rightarrow> string"
  Error :: "error \<Rightarrow> string"
  Quote :: "string \<Rightarrow> string"
  keySetForComparer :: "string \<Rightarrow> 'c \<Rightarrow> (bytes \<Rightarrow> string) \<Rightarrow> (bytes \<Rightarrow> string)"
  valueSetForComparer ::
    "string \<Rightarrow> 'c \<Rightarrow> (bytes \<Rightarrow> bytes \<Rightarrow> string) \<Rightarrow> (bytes \<Rightarrow> bytes \<Rightarrow> string)"

subsection \<open>Go's standard library: \<^verbatim>\<open>%d\<close> and \<^verbatim>\<open>binary.Uvarint\<close>\<close>

text \<open>
  The \<^verbatim>\<open>%d\<close> verb on a non-negative integer: its decimal digits. \<open>digit\<close> is only
  applied to numbers below ten.
\<close>

definition digit :: "nat \<Rightarrow> char" where
  "digit d = ''0123456789'' ! d"

function decimal :: "nat \<Rightarrow> string" where
  "decimal n = (if n < 10 then [digit n] else decimal (n div 10) @ [digit (n mod 10)])"
  by pat_completeness auto
termination
  by (relation "measure (\<lambda>n. n)") auto

declare decimal.simps [simp del]

text \<open>
  \<^verbatim>\<open>
  func Uvarint(buf []byte) (uint64, int) {
      var x uint64
      var s uint
      for i, b := range buf {
          if i == MaxVarintLen64 {
              return 0, -(i + 1) // overflow
          }
          if b < 0x80 {
              if i == MaxVarintLen64-1 && b > 1 {
                  return 0, -(i + 1) // overflow
              }
              return x | uint64(b)<<s, i + 1
          }
          x |= uint64(b&0x7f) << s
          s += 7
      }
      return 0, 0
  }
  \<close>
  The second result is the number of bytes read when it is positive; 0 says the buffer
  ended inside the number and a negative one that the number overflows 64 bits.
\<close>

definition MaxVarintLen64 :: nat where
  "MaxVarintLen64 = 10"

fun Uvarint_loop :: "bytes \<Rightarrow> nat \<Rightarrow> 64 word \<Rightarrow> nat \<Rightarrow> 64 word \<times> int" where
  "Uvarint_loop [] i x s = (0, 0)"
| "Uvarint_loop (b # buf) i x s =
     (if i = MaxVarintLen64 then (0, - (int i + 1))
      else if (of_char b :: 8 word) < 0x80 then
        (if i = MaxVarintLen64 - 1 \<and> (of_char b :: 8 word) > 1 then (0, - (int i + 1))
         else (x OR push_bit s (ucast (of_char b :: 8 word)), int i + 1))
      else Uvarint_loop buf (i + 1)
             (x OR push_bit s (ucast ((of_char b :: 8 word) AND 0x7f))) (s + 7))"

definition Uvarint :: "bytes \<Rightarrow> 64 word \<times> int" where
  "Uvarint buf = Uvarint_loop buf 0 0 0"

text \<open>
  The encoder of the same package on an empty buffer, for the varint of a number:
  \<^verbatim>\<open>
  func AppendUvarint(buf []byte, x uint64) []byte {
      for x >= 0x80 {
          buf = append(buf, byte(x)|0x80)
          x >>= 7
      }
      return append(buf, byte(x))
  }
  \<close>
\<close>

function AppendUvarint :: "64 word \<Rightarrow> bytes" where
  "AppendUvarint x =
     (if x \<ge> 0x80 then char_of (unat ((ucast x :: 8 word) OR 0x80)) # AppendUvarint (drop_bit 7 x)
      else [char_of (unat (ucast x :: 8 word))])"
  by pat_completeness auto
termination
proof (relation "measure unat")
  show "wf (measure unat)" by simp
next
  fix x :: "64 word"
  assume "0x80 \<le> x"
  then have "128 \<le> unat x" by (simp add: word_le_nat_alt)
  then have "unat x div 128 < unat x" by simp
  then show "(drop_bit 7 x, x) \<in> measure unat"
    by (simp add: drop_bit_eq_div unat_div)
qed

declare AppendUvarint.simps [simp del]

subsection \<open>The entry loop\<close>

text \<open>
  The \<^verbatim>\<open>switch kind\<close> of the entry loop: the text printed between
  \<^verbatim>\<open>"    %s("\<close> and \<^verbatim>\<open>")\n"\<close>. The three range-key kinds share one case of the
  switch, \<open>rangeKeyCase\<close>: the entry's internal key carries the sequence number
  \<^verbatim>\<open>b.SeqNum()+uint64(idx)\<close>, an addition of 64-bit unsigned integers.
\<close>

definition rangeKeyCase ::
  "('fs, 'c) walT \<Rightarrow> ('fs, 'f, 'c, 's) pkgs \<Rightarrow> Batch \<Rightarrow> nat \<Rightarrow>
   InternalKeyKind \<Rightarrow> bytes \<Rightarrow> bytes \<Rightarrow> string" where
  "rangeKeyCase w p b idx kind ukey val =
     (let ik = MakeInternalKey ukey (SeqNum b + of_nat idx) kind in
      case rangekeyDecode p ik val of
        Inl err \<Rightarrow> fmtKey w ukey @ '': error decoding '' @ Error p err
      | Inr s \<Rightarrow> Pretty p s (fmtKey w))"

definition entryPayload ::
  "('fs, 'c) walT \<Rightarrow> ('fs, 'f, 'c, 's) pkgs \<Rightarrow> Batch \<Rightarrow> nat \<Rightarrow>
   InternalKeyKind \<Rightarrow> bytes \<Rightarrow> bytes \<Rightarrow> string" where
  "entryPayload w p b idx kind ukey val =
     (case kind of
        InternalKeyKindDelete \<Rightarrow> fmtKey w ukey
      | InternalKeyKindSet \<Rightarrow> fmtKey w ukey @ '','' @ fmtValue w ukey val
      | InternalKeyKindMerge \<Rightarrow> fmtKey w ukey @ '','' @ fmtValue w ukey val
      | InternalKeyKindLogData \<Rightarrow> ''<'' @ decimal (length val) @ ''>''
      | InternalKeyKindIngestSST \<Rightarrow>
          (let fileNum = fst (Uvarint ukey) in fileNumString p fileNum)
      | InternalKeyKindSingleDelete \<Rightarrow> fmtKey w ukey
      | InternalKeyKindSetWithDelete \<Rightarrow> fmtKey w ukey
      | InternalKeyKindRangeDelete \<Rightarrow> fmtKey w ukey @ '','' @ fmtKey w val
      | InternalKeyKindRangeKeySet \<Rightarrow> rangeKeyCase w p b idx kind ukey val
      | InternalKeyKindRangeKeyUnset \<Rightarrow> rangeKeyCase w p b idx kind ukey val
      | InternalKeyKindRangeKeyDelete \<Rightarrow> rangeKeyCase w p b idx kind ukey val
      | InternalKeyKindDeleteSized \<Rightarrow>
          (let v = fst (Uvarint val) in fmtKey w ukey @ '','' @ decimal (unat v)))"

text \<open>One iteration of the entry loop that got an entry: one line.\<close>

definition entryLine ::
  "('fs, 'c) walT \<Rightarrow> ('fs, 'f, 'c, 's) pkgs \<Rightarrow> Batch \<Rightarrow> nat \<Rightarrow>
   InternalKeyKind \<Rightarrow> bytes \<Rightarrow> bytes \<Rightarrow> string" where
  "entryLine w p b idx kind ukey val =
     ''    '' @ kindString p kind @ ''('' @ entryPayload w p b idx kind ukey val
       @ '')'' @ [CHR ''\<newline>'']"

text \<open>
  \<^verbatim>\<open>for r, idx := b.Reader(), 0; ; idx++\<close>: the loop ends at the first \<^verbatim>\<open>!ok\<close>, printing
  the error when there is one (without a line end), and \<^verbatim>\<open>break\<close>s. A panic of
  \<^verbatim>\<open>r.Next()\<close> goes through the loop.
\<close>

fun dumpEntries ::
  "('fs, 'c) walT \<Rightarrow> ('fs, 'f, 'c, 's) pkgs \<Rightarrow> string \<Rightarrow> Batch \<Rightarrow> BatchReader \<Rightarrow> nat \<Rightarrow>
   out list" where
  "dumpEntries w p arg b NextEnd idx = []"
| "dumpEntries w p arg b (NextErr err) idx =
     [Stdout (''corrupt batch within log file '' @ Quote p arg @ '': '' @ Error p err)]"
| "dumpEntries w p arg b (NextPanic v) idx = [Panic v]"
| "dumpEntries w p arg b (NextOk kind ukey val r) idx =
     Stdout (entryLine w p b idx kind ukey val) # dumpEntries w p arg b r (idx + 1)"

subsection \<open>The record loop, one file, all files\<close>

text \<open>
  The line printed for a failure of the record reader (the \<^verbatim>\<open>switch err\<close> of the record
  loop).
\<close>

definition failureLine :: "('fs, 'f, 'c, 's) pkgs \<Rightarrow> error \<Rightarrow> string" where
  "failureLine p err =
     (case err of
        ErrZeroedChunk \<Rightarrow>
          ''EOF ['' @ Error p err @ ''] (may be due to WAL preallocation)'' @ [CHR ''\<newline>'']
      | ErrInvalidChunk \<Rightarrow>
          ''EOF ['' @ Error p err @ ''] (may be due to WAL recycling)'' @ [CHR ''\<newline>'']
      | ErrOther msg \<Rightarrow> Error p err @ [CHR ''\<newline>''])"

text \<open>
  The \<^verbatim>\<open>for { ... }\<close> over the records of one file. A failure of the reader and a
  failure of \<open>SetRepr\<close> \<^verbatim>\<open>return\<close> from the file's closure; after the entry loop the
  record loop goes on with the next record, unless the entry loop panicked.
\<close>

fun dumpRecords ::
  "('fs, 'c) walT \<Rightarrow> ('fs, 'f, 'c, 's) pkgs \<Rightarrow> string \<Rightarrow> RecordReader \<Rightarrow> out list" where
  "dumpRecords w p arg (RecErr offset err) = [Stdout (failureLine p err)]"
| "dumpRecords w p arg (RecNext offset buf rr) =
     (case SetRepr p buf of
        Inl err \<Rightarrow>
          [Stdout (''corrupt batch within log file '' @ Quote p arg @ '': '' @ Error p err)]
      | Inr b \<Rightarrow>
          Stdout (decimal offset @ ''('' @ decimal (length (Repr b)) @ '') seq=''
                  @ decimal (unat (SeqNum b)) @ '' count='' @ decimal (unat (Count b))
                  @ [CHR ''\<newline>''])
          # andThen (dumpEntries w p arg b (Reader b) 0) (dumpRecords w p arg rr))"

text \<open>
  The closure run for one \<^verbatim>\<open>arg\<close>: the file number of the name, 0 when the name does
  not parse (\<open>fileNumFor\<close>), then the file. \<^verbatim>\<open>defer f.Close()\<close> prints nothing and its
  result is dropped. The loop over the paths runs the closure of the next path when the
  closure before it has returned; a panic leaves the loop and \<open>runDump\<close>.
\<close>

definition fileNumFor :: "('fs, 'c) walT \<Rightarrow> ('fs, 'f, 'c, 's) pkgs \<Rightarrow> string \<Rightarrow> 64 word" where
  "fileNumFor w p arg =
     (let (fileNum, ok) = ParseFilename p (FS w) arg
      in if \<not> ok then 0 else fileNum)"

definition dumpFile ::
  "('fs, 'c) walT \<Rightarrow> ('fs, 'f, 'c, 's) pkgs \<Rightarrow> string \<Rightarrow> out list" where
  "dumpFile w p arg =
     (let fileNum = fileNumFor w p arg
      in case Open p (FS w) arg of
           Inl err \<Rightarrow> [Stderr (Error p err @ [CHR ''\<newline>''])]
         | Inr f \<Rightarrow>
             Stdout (arg @ [CHR ''\<newline>'']) # dumpRecords w p arg (NewReader p f fileNum))"

fun dumpFiles ::
  "('fs, 'c) walT \<Rightarrow> ('fs, 'f, 'c, 's) pkgs \<Rightarrow> string list \<Rightarrow> out list" where
  "dumpFiles w p [] = []"
| "dumpFiles w p (arg # args) = andThen (dumpFile w p arg) (dumpFiles w p args)"

text \<open>The two \<^verbatim>\<open>setForComparer\<close> calls that open \<open>runDump\<close>.\<close>

definition setForComparers ::
  "('fs, 'c) walT \<Rightarrow> ('fs, 'f, 'c, 's) pkgs \<Rightarrow> ('fs, 'c) walT" where
  "setForComparers w p =
     w\<lparr>fmtKey := keySetForComparer p (defaultComparer w) (comparers w) (fmtKey w),
       fmtValue := valueSetForComparer p (defaultComparer w) (comparers w) (fmtValue w)\<rparr>"

definition runDump ::
  "('fs, 'c) walT \<Rightarrow> ('fs, 'f, 'c, 's) pkgs \<Rightarrow> string list \<Rightarrow> out list" where
  "runDump w p args = dumpFiles (setForComparers w p) p args"

subsection \<open>What the results of the two cursors say\<close>

text \<open>
  The entries a batch's cursor gives before it stops, and the error or the panic it
  stops with.
\<close>

fun entries :: "BatchReader \<Rightarrow> (InternalKeyKind \<times> bytes \<times> bytes) list" where
  "entries NextEnd = []"
| "entries (NextErr err) = []"
| "entries (NextPanic v) = []"
| "entries (NextOk kind ukey val r) = (kind, ukey, val) # entries r"

fun readerErr :: "BatchReader \<Rightarrow> error option" where
  "readerErr NextEnd = None"
| "readerErr (NextErr err) = Some err"
| "readerErr (NextPanic v) = None"
| "readerErr (NextOk kind ukey val r) = readerErr r"

fun readerPanic :: "BatchReader \<Rightarrow> string option" where
  "readerPanic NextEnd = None"
| "readerPanic (NextErr err) = None"
| "readerPanic (NextPanic v) = Some v"
| "readerPanic (NextOk kind ukey val r) = readerPanic r"

text \<open>
  A well-formed batch: every entry of the payload decodes, and the header's count is the
  number of entries.
\<close>

definition wellFormedBatch :: "Batch \<Rightarrow> bool" where
  "wellFormedBatch b =
     (readerErr (Reader b) = None \<and> readerPanic (Reader b) = None \<and>
      length (entries (Reader b)) = unat (Count b))"

text \<open>The failure that ends the reading of a file.\<close>

fun failure :: "RecordReader \<Rightarrow> error" where
  "failure (RecErr offset err) = err"
| "failure (RecNext offset buf rr) = failure rr"

text \<open>Every payload of the reader is accepted by \<open>SetRepr\<close>.\<close>

fun allSetRepr :: "('fs, 'f, 'c, 's) pkgs \<Rightarrow> RecordReader \<Rightarrow> bool" where
  "allSetRepr p (RecErr offset err) = True"
| "allSetRepr p (RecNext offset buf rr) =
     (case SetRepr p buf of Inl err \<Rightarrow> False | Inr b \<Rightarrow> allSetRepr p rr)"

text \<open>
  No entry cursor of a batch that the record loop gets to panics: the closure of the
  file returns. \<open>filePanics\<close> says of a path that it opens and that a cursor panics.
\<close>

fun noPanic :: "('fs, 'f, 'c, 's) pkgs \<Rightarrow> RecordReader \<Rightarrow> bool" where
  "noPanic p (RecErr offset err) = True"
| "noPanic p (RecNext offset buf rr) =
     (case SetRepr p buf of
        Inl err \<Rightarrow> True
      | Inr b \<Rightarrow> readerPanic (Reader b) = None \<and> noPanic p rr)"


subsection \<open>The default formatters and the names printed\<close>

text \<open>
  Modelled from the spec: \<^verbatim>\<open>keyFormatter.mustSet("quoted")\<close> of \<open>newWAL\<close> is defined
  outside the file; the spec's quoted-text key formatter renders the key \<^verbatim>\<open>a\<close> as
  \<^verbatim>\<open>"a"\<close>, the key between double quotes.
\<close>

definition formatKeyQuoted :: "bytes \<Rightarrow> string" where
  "formatKeyQuoted k = [CHR 0x22] @ k @ [CHR 0x22]"

text \<open>
  Modelled from the spec: \<^verbatim>\<open>valueFormatter.mustSet("size")\<close> of \<open>newWAL\<close> is defined
  outside the file; the spec's size-only value formatter renders a value of three bytes as
  \<^verbatim>\<open>3\<close>, the length of the value in decimal.
\<close>

definition formatValueSize :: "bytes \<Rightarrow> bytes \<Rightarrow> string" where
  "formatValueSize k v = decimal (length v)"

text \<open>
  Modelled from the spec: the \<^verbatim>\<open>String\<close> method of \<^verbatim>\<open>base.InternalKeyKind\<close> is defined
  outside the file; the spec prints a kind by its name in the enumeration
  (\<^verbatim>\<open>Set(...)\<close>, \<^verbatim>\<open>RangeDelete(...)\<close>, \<^verbatim>\<open>IngestSST(...)\<close>).
\<close>

fun InternalKeyKind_String :: "InternalKeyKind \<Rightarrow> string" where
  "InternalKeyKind_String InternalKeyKindDelete = ''Delete''"
| "InternalKeyKind_String InternalKeyKindSet = ''Set''"
| "InternalKeyKind_String InternalKeyKindMerge = ''Merge''"
| "InternalKeyKind_String InternalKeyKindLogData = ''LogData''"
| "InternalKeyKind_String InternalKeyKindIngestSST = ''IngestSST''"
| "InternalKeyKind_String InternalKeyKindSingleDelete = ''SingleDelete''"
| "InternalKeyKind_String InternalKeyKindSetWithDelete = ''SetWithDelete''"
| "InternalKeyKind_String InternalKeyKindRangeDelete = ''RangeDelete''"
| "InternalKeyKind_String InternalKeyKindRangeKeySet = ''RangeKeySet''"
| "InternalKeyKind_String InternalKeyKindRangeKeyUnset = ''RangeKeyUnset''"
| "InternalKeyKind_String InternalKeyKindRangeKeyDelete = ''RangeKeyDelete''"
| "InternalKeyKind_String InternalKeyKindDeleteSized = ''DeleteSized''"

text \<open>
  Modelled from the spec: the \<^verbatim>\<open>String\<close> method of \<^verbatim>\<open>base.FileNum\<close> is defined outside
  the file; the spec prints the file number 42 as \<^verbatim>\<open>42\<close>, its decimal digits.
\<close>

definition FileNum_String :: "64 word \<Rightarrow> string" where
  "FileNum_String fn = decimal (unat fn)"

text \<open>
  \<open>newWAL\<close>, as far as \<open>runDump\<close> reads what it builds: the options' file system, the
  formatters set to \<^verbatim>\<open>"quoted"\<close> and \<^verbatim>\<open>"size"\<close>, the comparers and the default
  comparer's name.
\<close>

definition newWAL :: "'fs \<Rightarrow> 'c \<Rightarrow> string \<Rightarrow> ('fs, 'c) walT" where
  "newWAL fs cmps dflt =
     \<lparr>FS = fs, fmtKey = formatKeyQuoted, fmtValue = formatValueSize,
      defaultComparer = dflt, comparers = cmps\<rparr>"

subsection \<open>An instance of the parameters\<close>

text \<open>
  A small world to run the command in. The file system is a table from paths to what the
  record reader gives for the file, a path outside the table does not open, and no name
  parses as a log file's name. \<open>SetRepr\<close> is a table from payloads to batches, a payload
  outside the table being rejected. The range-key decoder rejects an empty value and
  takes any other value as the span's text. Names and numbers print as the spec has
  them, an error prints its message (the two sentinels the names the spec gives them),
  \<^verbatim>\<open>%q\<close> puts a plain printable path between double quotes, and no comparer brings a
  formatter of its own.
\<close>

type_synonym world = "(string \<times> RecordReader) list"

definition openIn :: "world \<Rightarrow> string \<Rightarrow> error + RecordReader" where
  "openIn fs arg =
     (case map_of fs arg of
        None \<Rightarrow> Inl (ErrOther (''open '' @ arg @ '': file does not exist''))
      | Some rr \<Rightarrow> Inr rr)"

fun errorText :: "error \<Rightarrow> string" where
  "errorText ErrZeroedChunk = ''ZeroedChunk''"
| "errorText ErrInvalidChunk = ''InvalidChunk''"
| "errorText (ErrOther msg) = msg"

definition worldPkgs :: "(bytes \<times> Batch) list \<Rightarrow> (world, RecordReader, unit, string) pkgs" where
  "worldPkgs batches =
     \<lparr>ParseFilename = (\<lambda>fs arg. (7, False)),
      Open = openIn,
      NewReader = (\<lambda>f fileNum. f),
      SetRepr = (\<lambda>buf. case map_of batches buf of
                          None \<Rightarrow> Inl (ErrOther ''invalid batch'')
                        | Some b \<Rightarrow> Inr b),
      rangekeyDecode = (\<lambda>ik v. if v = [] then Inl (ErrOther ''unable to decode range key end'')
                               else Inr v),
      Pretty = (\<lambda>s f. s),
      kindString = InternalKeyKind_String,
      fileNumString = FileNum_String,
      Error = errorText,
      Quote = formatKeyQuoted,
      keySetForComparer = (\<lambda>name cmps f. f),
      valueSetForComparer = (\<lambda>name cmps f. f)\<rparr>"

text \<open>
  Log files of that world: one with one record and then the end of the file, one with
  one record and then a zeroed chunk, one that starts with an invalid chunk. The
  record's batch holds the one entry \<open>(kind, ukey, val)\<close>.
\<close>

definition exampleLogs :: world where
  "exampleLogs =
     [(''000001.log'', RecNext 0 ''payload'' (RecErr 18 (ErrOther ''EOF''))),
      (''000003.log'', RecNext 0 ''payload'' (RecErr 18 ErrZeroedChunk)),
      (''000004.log'', RecErr 0 ErrInvalidChunk)]"

definition oneEntryBatch :: "InternalKeyKind \<Rightarrow> bytes \<Rightarrow> bytes \<Rightarrow> Batch" where
  "oneEntryBatch kind ukey val =
     \<lparr>Repr = ''payload'', SeqNum = 5, Count = 1, Reader = NextOk kind ukey val NextEnd\<rparr>"

definition dumpOneEntry :: "InternalKeyKind \<Rightarrow> bytes \<Rightarrow> bytes \<Rightarrow> out list" where
  "dumpOneEntry kind ukey val =
     runDump (newWAL exampleLogs () []) (worldPkgs [(''payload'', oneEntryBatch kind ukey val)])
       [''000001.log'']"

text \<open>
  A log file of two records: the batch of the first has a good entry and then an entry
  that does not decode, the batch of the second is well formed.
\<close>

definition corruptEntryLog :: world where
  "corruptEntryLog =
     [(''000002.log'', RecNext 0 ''first'' (RecNext 23 ''second'' (RecErr 41 (ErrOther ''EOF''))))]"

definition corruptEntryBatches :: "(bytes \<times> Batch) list" where
  "corruptEntryBatches =
     [(''first'',
       \<lparr>Repr = ''first'', SeqNum = 10, Count = 2,
        Reader = NextOk InternalKeyKindSet ''k'' ''abc''
                   (NextErr (ErrOther ''invalid batch: decoding user key''))\<rparr>),
      (''second'',
       \<lparr>Repr = ''second'', SeqNum = 12, Count = 1,
        Reader = NextOk InternalKeyKindDelete ''d'' [] NextEnd\<rparr>)]"



text \<open>A batch of two entries, the second a range key.\<close>

definition twoEntryBatch :: Batch where
  "twoEntryBatch =
     \<lparr>Repr = ''payload'', SeqNum = 5, Count = 2,
      Reader = NextOk InternalKeyKindSet ''k'' ''abc''
                 (NextOk InternalKeyKindRangeKeySet ''a'' ''z'' NextEnd)\<rparr>"

section \<open>Properties\<close>

subsection \<open>The loops, unrolled\<close>

lemma panicked_append: "panicked (outs @ outs') = (panicked outs \<or> panicked outs')"
  by (induction outs rule: panicked.induct) simp_all

lemma andThen_returned: "\<not> panicked outs \<Longrightarrow> andThen outs outs' = outs @ outs'"
  by (simp add: andThen_def)

lemma andThen_panicked: "panicked outs \<Longrightarrow> andThen outs outs' = outs"
  by (simp add: andThen_def)

lemma panicked_andThen: "panicked (andThen outs outs') = (panicked outs \<or> panicked outs')"
  by (simp add: andThen_def panicked_append)



lemma readerErr_no_panic: "readerErr r = Some err \<Longrightarrow> readerPanic r = None"
  by (induction r) simp_all

lemma dumpEntries_conv:
  "dumpEntries w p arg b r idx =
     map (\<lambda>(i, kind, ukey, val). Stdout (entryLine w p b i kind ukey val))
         (enumerate idx (entries r))
     @ (case readerErr r of
          None \<Rightarrow> []
        | Some err \<Rightarrow>
            [Stdout (''corrupt batch within log file '' @ Quote p arg @ '': '' @ Error p err)])
     @ (case readerPanic r of None \<Rightarrow> [] | Some v \<Rightarrow> [Panic v])"
  by (induction r arbitrary: idx) simp_all

lemma panicked_dumpEntries:
  "panicked (dumpEntries w p arg b r idx) = (readerPanic r \<noteq> None)"
  by (induction r arbitrary: idx) simp_all

lemma panicked_dumpRecords: "panicked (dumpRecords w p arg rr) = (\<not> noPanic p rr)"
  by (induction rr) (auto simp: panicked_andThen panicked_dumpEntries split: sum.splits)




lemma dumpRecords_last:
  "allSetRepr p rr \<Longrightarrow> noPanic p rr \<Longrightarrow>
     dumpRecords w p arg rr \<noteq> [] \<and>
     last (dumpRecords w p arg rr) = Stdout (failureLine p (failure rr))"
  by (induction rr)
    (auto simp: andThen_def panicked_dumpEntries panicked_dumpRecords split: sum.splits)

lemma FS_setForComparers: "FS (setForComparers w p) = FS w"
  by (simp add: setForComparers_def)

lemma Uvarint_loop_fail:
  "snd (Uvarint_loop buf i x s) \<le> 0 \<Longrightarrow> fst (Uvarint_loop buf i x s) = 0"
  by (induction buf arbitrary: i x s) (auto split: if_splits)

subsection \<open>\<open>Uvarint\<close> reads what \<open>AppendUvarint\<close> writes\<close>

lemma of_char_byte: "(of_char (char_of (unat (w :: 8 word))) :: 8 word) = w"
proof -
  have "(of_char (char_of (unat w)) :: nat) = unat w"
    using unsigned_less [of w, where ?'a = nat] by simp
  then have "(of_nat (of_char (char_of (unat w))) :: 8 word) = of_nat (unat w)"
    by simp
  then show ?thesis
    by (simp only: of_nat_of_char) simp
qed

lemma more_byte: "\<not> ((w :: 8 word) OR 0x80) < 0x80"
proof -
  have "(0x80 :: 8 word) \<le> 0x80 OR w" by (rule le_word_or2)
  then show ?thesis by (simp add: or.commute not_less)
qed

lemma unat_low_byte: "(x :: 64 word) < 0x80 \<Longrightarrow> unat (ucast x :: 8 word) = unat x"
proof -
  assume "x < 0x80"
  then have "unat x < 128" by (simp add: word_less_nat_alt)
  then have "take_bit 8 (unat x) = unat x"
    by (simp add: take_bit_nat_eq_self)
  then show ?thesis by (simp add: unsigned_ucast_eq)
qed

lemma last_byte_less: "(x :: 64 word) < 0x80 \<Longrightarrow> (ucast x :: 8 word) < 0x80"
  using unat_low_byte [of x] by (simp add: word_less_nat_alt)

lemma last_byte_back: "(x :: 64 word) < 0x80 \<Longrightarrow> (ucast (ucast x :: 8 word) :: 64 word) = x"
proof -
  assume a: "x < 0x80"
  have "unat (ucast (ucast x :: 8 word) :: 64 word) = unat x"
    using unat_low_byte [OF a] by (simp add: unsigned_ucast_eq unsigned_take_bit_eq)
  then show ?thesis by (simp only: word_unat_eq_iff)
qed

lemma last_byte_small: "unat (x :: 64 word) < 2 \<Longrightarrow> \<not> (ucast x :: 8 word) > 1"
proof -
  assume a: "unat x < 2"
  then have "x < 0x80" by (simp add: word_less_nat_alt)
  from unat_low_byte [OF this] a show ?thesis by (simp add: word_less_nat_alt)
qed

lemma bit_0x80: "bit (0x80 :: 8 word) n \<longleftrightarrow> n = 7"
proof -
  have e: "(0x80 :: 8 word) = 2 ^ 7" by simp
  show ?thesis by (simp only: e bit_exp_iff) (auto simp: possible_bit_word)
qed

lemma drop_high: "((w :: 8 word) OR 0x80) AND 0x7f = take_bit 7 w"
proof -
  have m: "(0x7f :: 8 word) = mask 7" by (simp add: mask_eq_exp_minus_1)
  show ?thesis
    unfolding m
  proof (rule bit_eqI)
    fix n
    show "bit ((w OR 0x80) AND mask 7) n = bit (take_bit 7 w) n"
      using bit_0x80 [of n]
      by (auto simp: bit_and_iff bit_or_iff bit_mask_iff bit_take_bit_iff)
  qed
qed

lemma seven_bits:
  "(ucast (((ucast (x :: 64 word) :: 8 word) OR 0x80) AND 0x7f) :: 64 word) = take_bit 7 x"
  unfolding drop_high by (rule bit_eqI) (auto simp: bit_simps)

lemma glue:
  "push_bit s (take_bit 7 x) OR push_bit (s + 7) (drop_bit 7 x) = push_bit s (x :: 64 word)"
proof (rule bit_eqI)
  fix n
  show "bit (push_bit s (take_bit 7 x) OR push_bit (s + 7) (drop_bit 7 x)) n
      = bit (push_bit s x) n"
  proof (cases "n - s < 7")
    case True
    then show ?thesis by (auto simp: bit_simps)
  next
    case False
    then have "7 + (n - (s + 7)) = n - s" and "s + 7 \<le> n" by simp_all
    then show ?thesis by (auto simp: bit_simps)
  qed
qed



lemma Uvarint_loop_AppendUvarint:
  "i \<le> 9 \<Longrightarrow> s = 7 * i \<Longrightarrow> unat x < 2 ^ (64 - s) \<Longrightarrow>
     Uvarint_loop (AppendUvarint x) i acc s =
       (acc OR push_bit s x, int i + int (length (AppendUvarint x)))"
proof (induction x arbitrary: i s acc rule: AppendUvarint.induct)
  case (1 x)
  show ?case
  proof (cases "x \<ge> 0x80")
    case True
    then have big: "128 \<le> unat x" by (simp add: word_le_nat_alt)
    have i8: "i \<le> 8"
    proof (rule ccontr)
      assume "\<not> i \<le> 8"
      with "1.prems" have "i = 9" by simp
      with "1.prems" have "unat x < 2" by simp
      with big show False by simp
    qed
    have pw: "(2::nat) ^ (64 - s) = 2 ^ (64 - (s + 7)) * 128"
    proof -
      have e: "64 - (s + 7) + 7 = 64 - s" using i8 "1.prems" by arith
      have c: "(2::nat) ^ 7 = 128" by simp
      have "(2::nat) ^ (64 - (s + 7) + 7) = 2 ^ (64 - (s + 7)) * 2 ^ 7"
        by (rule power_add)
      then show ?thesis by (simp only: e c)
    qed
    have sm: "unat (drop_bit 7 x) < 2 ^ (64 - (s + 7))"
    proof -
      have "unat (drop_bit 7 x) = unat x div 128"
        by (simp add: drop_bit_eq_div unat_div)
      moreover have "unat x div 128 < 2 ^ (64 - (s + 7))"
        using "1.prems"(3) pw by (simp add: less_mult_imp_div_less)
      ultimately show ?thesis by simp
    qed
    have ih: "Uvarint_loop (AppendUvarint (drop_bit 7 x)) (i + 1)
        (acc OR push_bit s (take_bit 7 x)) (s + 7) =
        ((acc OR push_bit s (take_bit 7 x)) OR push_bit (s + 7) (drop_bit 7 x),
         int (i + 1) + int (length (AppendUvarint (drop_bit 7 x))))"
      using "1.IH" [OF True, of "i + 1" "s + 7" "acc OR push_bit s (take_bit 7 x)"]
        i8 "1.prems" sm by simp
    have ne: "i \<noteq> MaxVarintLen64" using i8 by (simp add: MaxVarintLen64_def)
    have ap: "AppendUvarint x =
        char_of (unat ((ucast x :: 8 word) OR 0x80)) # AppendUvarint (drop_bit 7 x)"
      using True by (subst AppendUvarint.simps) simp
    have "Uvarint_loop (AppendUvarint x) i acc s =
        Uvarint_loop (AppendUvarint (drop_bit 7 x)) (i + 1)
          (acc OR push_bit s (take_bit 7 x)) (s + 7)"
      by (simp only: ap Uvarint_loop.simps of_char_byte more_byte ne if_False seven_bits)
    also have "\<dots> = (acc OR push_bit s x,
        int i + int (length (AppendUvarint x)))"
      using ih by (simp add: ap or.assoc glue)
    finally show ?thesis .
  next
    case False
    then have small: "x < 0x80" by simp
    have ap: "AppendUvarint x = [char_of (unat (ucast x :: 8 word))]"
      using False by (subst AppendUvarint.simps) simp
    have ne: "i \<noteq> MaxVarintLen64" using "1.prems" by (simp add: MaxVarintLen64_def)
    have ov: "\<not> (i = MaxVarintLen64 - 1 \<and> (ucast x :: 8 word) > 1)"
    proof
      assume a: "i = MaxVarintLen64 - 1 \<and> (ucast x :: 8 word) > 1"
      then have "i = 9" by (simp add: MaxVarintLen64_def)
      with "1.prems" have "unat x < 2" by simp
      from last_byte_small [OF this] a show False by simp
    qed
    show ?thesis
      using ov
      by (simp only: ap Uvarint_loop.simps of_char_byte ne if_False
          last_byte_less [OF small] if_True last_byte_back [OF small]) simp
  qed
qed

lemma Uvarint_AppendUvarint:
  "Uvarint (AppendUvarint x) = (x, int (length (AppendUvarint x)))"
proof -
  have "unat x < 2 ^ (64 - 0)"
    using unsigned_less [of x, where ?'a = nat] by simp
  from Uvarint_loop_AppendUvarint [of 0 0 x 0, OF _ _ this]
  show ?thesis by (simp add: Uvarint_def)
qed

subsection \<open>Entry lines of a well-formed batch\<close>

text \<open>
  C1. For a well-formed batch (every entry decodes: the cursor ends without an error and
  without a panic) the entry loop prints as many entry lines as the header's
  count says; the line at index \<open>i\<close> is the line of the \<open>i\<close>-th entry, and when that
  entry is a range key, the internal key given to the range-key decoder carries the
  header's sequence number plus \<open>i\<close> (an addition of 64-bit unsigned integers). The
  entry loop is the one the record loop runs on the batch that \<open>SetRepr\<close> gave.
\<close>

theorem wellformed_batch_entry_lines:
  assumes wf: "wellFormedBatch b"
  shows "length (dumpEntries w p arg b (Reader b) 0) = unat (Count b) \<and>
    (\<forall>i < unat (Count b).
       case entries (Reader b) ! i of (kind, ukey, val) \<Rightarrow>
         dumpEntries w p arg b (Reader b) 0 ! i =
           Stdout (''    '' @ kindString p kind @ ''('' @ entryPayload w p b i kind ukey val
                   @ '')'' @ [CHR ''\<newline>'']) \<and>
         (kind \<in> {InternalKeyKindRangeKeySet, InternalKeyKindRangeKeyUnset,
                   InternalKeyKindRangeKeyDelete} \<longrightarrow>
            entryPayload w p b i kind ukey val =
              (case rangekeyDecode p (MakeInternalKey ukey (SeqNum b + of_nat i) kind) val of
                 Inl err \<Rightarrow> fmtKey w ukey @ '': error decoding '' @ Error p err
               | Inr s \<Rightarrow> Pretty p s (fmtKey w)) \<and>
            unat (ikSeqNum (MakeInternalKey ukey (SeqNum b + of_nat i) kind)) =
              (unat (SeqNum b) + i) mod 2 ^ 64)) \<and>
    (SetRepr p buf = Inr b \<longrightarrow>
       dumpRecords w p arg (RecNext offset buf rr) =
         Stdout (decimal offset @ ''('' @ decimal (length (Repr b)) @ '') seq=''
                 @ decimal (unat (SeqNum b)) @ '' count='' @ decimal (unat (Count b))
                 @ [CHR ''\<newline>''])
         # dumpEntries w p arg b (Reader b) 0 @ dumpRecords w p arg rr)"
proof -
  let ?es = "entries (Reader b)"
  from wf have noerr: "readerErr (Reader b) = None" and nopanic: "readerPanic (Reader b) = None"
    and len: "length ?es = unat (Count b)"
    by (simp_all add: wellFormedBatch_def)
  have out: "dumpEntries w p arg b (Reader b) 0 =
      map (\<lambda>(i, kind, ukey, val). Stdout (entryLine w p b i kind ukey val)) (enumerate 0 ?es)"
    by (simp add: dumpEntries_conv noerr nopanic)
  have n: "length (dumpEntries w p arg b (Reader b) 0) = unat (Count b)"
    by (simp add: out len)
  have each: "case ?es ! i of (kind, ukey, val) \<Rightarrow>
         dumpEntries w p arg b (Reader b) 0 ! i =
           Stdout (''    '' @ kindString p kind @ ''('' @ entryPayload w p b i kind ukey val
                   @ '')'' @ [CHR ''\<newline>'']) \<and>
         (kind \<in> {InternalKeyKindRangeKeySet, InternalKeyKindRangeKeyUnset,
                   InternalKeyKindRangeKeyDelete} \<longrightarrow>
            entryPayload w p b i kind ukey val =
              (case rangekeyDecode p (MakeInternalKey ukey (SeqNum b + of_nat i) kind) val of
                 Inl err \<Rightarrow> fmtKey w ukey @ '': error decoding '' @ Error p err
               | Inr s \<Rightarrow> Pretty p s (fmtKey w)) \<and>
            unat (ikSeqNum (MakeInternalKey ukey (SeqNum b + of_nat i) kind)) =
              (unat (SeqNum b) + i) mod 2 ^ 64)"
    if i: "i < unat (Count b)" for i
  proof -
    obtain kind ukey val where e: "?es ! i = (kind, ukey, val)"
      by (cases "?es ! i") auto
    from i len have il: "i < length ?es" by simp
    have line: "dumpEntries w p arg b (Reader b) 0 ! i =
           Stdout (''    '' @ kindString p kind @ ''('' @ entryPayload w p b i kind ukey val
                   @ '')'' @ [CHR ''\<newline>''])"
      using il e by (simp add: out nth_enumerate_eq entryLine_def)
    have rk: "entryPayload w p b i kind ukey val =
              (case rangekeyDecode p (MakeInternalKey ukey (SeqNum b + of_nat i) kind) val of
                 Inl err \<Rightarrow> fmtKey w ukey @ '': error decoding '' @ Error p err
               | Inr s \<Rightarrow> Pretty p s (fmtKey w))"
      if "kind \<in> {InternalKeyKindRangeKeySet, InternalKeyKindRangeKeyUnset,
                   InternalKeyKindRangeKeyDelete}"
      using that by (auto simp: entryPayload_def rangeKeyCase_def)
    have sq: "unat (ikSeqNum (MakeInternalKey ukey (SeqNum b + of_nat i) kind)) =
              (unat (SeqNum b) + i) mod 2 ^ 64"
      by (simp add: MakeInternalKey_def unat_word_ariths unat_of_nat mod_add_right_eq)
    show ?thesis
      unfolding e prod.case using line rk sq by blast
  qed
  have rec: "dumpRecords w p arg (RecNext offset buf rr) =
         Stdout (decimal offset @ ''('' @ decimal (length (Repr b)) @ '') seq=''
                 @ decimal (unat (SeqNum b)) @ '' count='' @ decimal (unat (Count b))
                 @ [CHR ''\<newline>''])
         # dumpEntries w p arg b (Reader b) 0 @ dumpRecords w p arg rr"
    if "SetRepr p buf = Inr b"
    using that by (simp add: andThen_returned panicked_dumpEntries nopanic)
  show ?thesis using n each rec by blast
qed

subsection \<open>Failures of the record reader\<close>

lemma fileNumFor_setForComparers:
  "fileNumFor (setForComparers w p) p arg = fileNumFor w p arg"
  by (simp add: fileNumFor_def FS_setForComparers)

lemma runDump_Cons:
  "runDump w p (arg # args) = andThen (dumpFile (setForComparers w p) p arg) (runDump w p args)"
  by (simp add: runDump_def)



text \<open>
  C2. When the record reader fails, the record loop prints one line and returns: for
  \<open>ErrZeroedChunk\<close> an EOF line that names WAL preallocation, for \<open>ErrInvalidChunk\<close> an
  EOF line that names WAL recycling, for any other error the error as it is. In a run
  over several files that line is the last of its file (when the loop gets to the
  failure, that is when no payload before it was rejected by \<open>SetRepr\<close> and no entry
  cursor before it panicked), and the run goes on with the files that follow.
\<close>

theorem record_source_failure_ends_file:
  "dumpRecords w p arg (RecErr offset err) = [Stdout (failureLine p err)] \<and>
   failureLine p ErrZeroedChunk =
     ''EOF ['' @ Error p ErrZeroedChunk @ ''] (may be due to WAL preallocation)''
       @ [CHR ''\<newline>''] \<and>
   failureLine p ErrInvalidChunk =
     ''EOF ['' @ Error p ErrInvalidChunk @ ''] (may be due to WAL recycling)''
       @ [CHR ''\<newline>''] \<and>
   failureLine p (ErrOther msg) = Error p (ErrOther msg) @ [CHR ''\<newline>''] \<and>
   (Open p (FS w) arg = Inr f \<and> allSetRepr p (NewReader p f (fileNumFor w p arg)) \<and>
    noPanic p (NewReader p f (fileNumFor w p arg)) \<longrightarrow>
      (\<exists>pre. runDump w p (arg # args) =
         pre @ [Stdout (failureLine p (failure (NewReader p f (fileNumFor w p arg))))]
           @ runDump w p args))"
proof -
  let ?w = "setForComparers w p"
  let ?rr = "NewReader p f (fileNumFor w p arg)"
  have run: "\<exists>pre. runDump w p (arg # args) =
         pre @ [Stdout (failureLine p (failure ?rr))] @ runDump w p args"
    if op: "Open p (FS w) arg = Inr f" and ok: "allSetRepr p ?rr" and np: "noPanic p ?rr"
  proof -
    from dumpRecords_last [OF ok np, of ?w arg]
    have ne: "dumpRecords ?w p arg ?rr \<noteq> []"
      and la: "last (dumpRecords ?w p arg ?rr) = Stdout (failureLine p (failure ?rr))"
      by simp_all
    from ne la have sp: "dumpRecords ?w p arg ?rr =
        butlast (dumpRecords ?w p arg ?rr) @ [Stdout (failureLine p (failure ?rr))]"
      by (metis append_butlast_last_id)
    have df: "dumpFile ?w p arg = Stdout (arg @ [CHR ''\<newline>'']) # dumpRecords ?w p arg ?rr"
      using op by (simp add: dumpFile_def FS_setForComparers fileNumFor_setForComparers)
    have "\<not> panicked (dumpFile ?w p arg)"
      using np by (simp add: df panicked_dumpRecords)
    then have "runDump w p (arg # args) = dumpFile ?w p arg @ runDump w p args"
      by (simp add: runDump_Cons andThen_returned)
    then have "runDump w p (arg # args) =
        (Stdout (arg @ [CHR ''\<newline>'']) # butlast (dumpRecords ?w p arg ?rr))
          @ [Stdout (failureLine p (failure ?rr))] @ runDump w p args"
      using sp df by simp
    then show ?thesis by blast
  qed
  show ?thesis
    using run by (simp add: failureLine_def)
qed

subsection \<open>Corrupt batches\<close>

text \<open>
  The two places that print \<^verbatim>\<open>corrupt batch within log file\<close>. A payload that
  \<open>SetRepr\<close> rejects ends the file: nothing of the reader that follows is printed. An
  entry that does not decode ends the entry loop only: the record loop goes on with the
  reader that follows. An entry cursor that panics ends the run.
\<close>

lemma setRepr_failure_ends_file:
  "SetRepr p buf = Inl err \<Longrightarrow>
     dumpRecords w p arg (RecNext offset buf rr) =
       [Stdout (''corrupt batch within log file '' @ Quote p arg @ '': '' @ Error p err)]"
  by simp

lemma entry_failure_goes_on:
  "SetRepr p buf = Inr b \<Longrightarrow> readerErr (Reader b) = Some err \<Longrightarrow>
     \<exists>pre. dumpRecords w p arg (RecNext offset buf rr) =
       pre @ [Stdout (''corrupt batch within log file '' @ Quote p arg @ '': '' @ Error p err)]
         @ dumpRecords w p arg rr"
proof -
  assume sr: "SetRepr p buf = Inr b" and er: "readerErr (Reader b) = Some err"
  from er have np: "readerPanic (Reader b) = None"
    by (rule readerErr_no_panic)
  then have "\<not> panicked (dumpEntries w p arg b (Reader b) 0)"
    by (simp add: panicked_dumpEntries)
  then have "dumpRecords w p arg (RecNext offset buf rr) =
      Stdout (decimal offset @ ''('' @ decimal (length (Repr b)) @ '') seq=''
              @ decimal (unat (SeqNum b)) @ '' count='' @ decimal (unat (Count b))
              @ [CHR ''\<newline>''])
      # dumpEntries w p arg b (Reader b) 0 @ dumpRecords w p arg rr"
    using sr by (simp add: andThen_returned)
  then show ?thesis
    by (simp add: dumpEntries_conv er np)
qed

lemma entry_panic_ends_run:
  "SetRepr p buf = Inr b \<Longrightarrow> readerPanic (Reader b) = Some v \<Longrightarrow>
     \<exists>pre. dumpRecords w p arg (RecNext offset buf rr) = pre @ [Panic v]"
  by (simp add: andThen_panicked panicked_dumpEntries) (simp add: dumpEntries_conv)

lemmas run_example = runDump_def setForComparers_def newWAL_def worldPkgs_def
  exampleLogs_def oneEntryBatch_def dumpFile_def fileNumFor_def openIn_def failureLine_def
  entryLine_def entryPayload_def rangeKeyCase_def formatKeyQuoted_def formatValueSize_def
  FileNum_String_def Uvarint_def MaxVarintLen64_def MakeInternalKey_def
  decimal.simps digit_def andThen_def

text \<open>
  C3. The run of \<open>runDump\<close> on a file of two records whose first batch has an entry that
  does not decode: the message with the file's path is printed, and after it the second
  record is read and printed.
\<close>

theorem entry_decode_failure_reads_next_record:
  "runDump (newWAL corruptEntryLog () []) (worldPkgs corruptEntryBatches) [''000002.log''] =
     [Stdout (''000002.log'' @ [CHR ''\<newline>'']),
      Stdout (''0(5) seq=10 count=2'' @ [CHR ''\<newline>'']),
      Stdout (''    Set('' @ [CHR 0x22] @ ''k'' @ [CHR 0x22] @ '',3)'' @ [CHR ''\<newline>'']),
      Stdout (''corrupt batch within log file '' @ [CHR 0x22] @ ''000002.log'' @ [CHR 0x22]
              @ '': invalid batch: decoding user key''),
      Stdout (''23(6) seq=12 count=1'' @ [CHR ''\<newline>'']),
      Stdout (''    Delete('' @ [CHR 0x22] @ ''d'' @ [CHR 0x22] @ '')'' @ [CHR ''\<newline>'']),
      Stdout (''EOF'' @ [CHR ''\<newline>''])]"
  by (simp add: run_example corruptEntryLog_def corruptEntryBatches_def)

subsection \<open>The loop over the files\<close>



subsection \<open>Entry lines, kind by kind\<close>

text \<open>
  C5. A range-key entry whose nested structure does not decode still gives its line:
  the formatted key, the decode error, and the line's end; the entry loop goes on with
  the entries that follow.
\<close>

theorem rangekey_decode_failure_is_one_line:
  assumes "kind \<in> {InternalKeyKindRangeKeySet, InternalKeyKindRangeKeyUnset,
                    InternalKeyKindRangeKeyDelete}"
    and "rangekeyDecode p (MakeInternalKey ukey (SeqNum b + of_nat idx) kind) val = Inl err"
  shows "dumpEntries w p arg b (NextOk kind ukey val r) idx =
     Stdout (''    '' @ kindString p kind @ ''('' @ fmtKey w ukey @ '': error decoding ''
             @ Error p err @ '')'' @ [CHR ''\<newline>''])
     # dumpEntries w p arg b r (idx + 1)"
  using assms by (auto simp: entryLine_def entryPayload_def rangeKeyCase_def)

text \<open>
  C6. An IngestSST entry prints the file number that \<open>Uvarint\<close> reads from the key
  field: for a key that is the varint of a number \<open>n\<close>, that number. The key of the
  one byte 0x2A is the varint of 42, and a log with that entry is dumped with the line
  \<^verbatim>\<open>IngestSST(42)\<close> (indented, as every entry line is).
\<close>

theorem ingestSST_prints_varint_of_key:
  "dumpEntries w p arg b (NextOk InternalKeyKindIngestSST ukey val r) idx =
     Stdout (''    '' @ kindString p InternalKeyKindIngestSST @ ''(''
             @ fileNumString p (fst (Uvarint ukey)) @ '')'' @ [CHR ''\<newline>''])
     # dumpEntries w p arg b r (idx + 1) \<and>
   dumpEntries w p arg b (NextOk InternalKeyKindIngestSST (AppendUvarint n) val r) idx =
     Stdout (''    '' @ kindString p InternalKeyKindIngestSST @ ''(''
             @ fileNumString p n @ '')'' @ [CHR ''\<newline>''])
     # dumpEntries w p arg b r (idx + 1) \<and>
   AppendUvarint 42 = [CHR 0x2A] \<and>
   dumpOneEntry InternalKeyKindIngestSST [CHR 0x2A] [] =
     [Stdout (''000001.log'' @ [CHR ''\<newline>'']),
      Stdout (''0(7) seq=5 count=1'' @ [CHR ''\<newline>'']),
      Stdout (''    IngestSST(42)'' @ [CHR ''\<newline>'']),
      Stdout (''EOF'' @ [CHR ''\<newline>''])]"
proof -
  have a: "dumpEntries w p arg b (NextOk InternalKeyKindIngestSST k val r) idx =
     Stdout (''    '' @ kindString p InternalKeyKindIngestSST @ ''(''
             @ fileNumString p (fst (Uvarint k)) @ '')'' @ [CHR ''\<newline>''])
     # dumpEntries w p arg b r (idx + 1)" for k
    by (simp add: entryLine_def entryPayload_def)
  have b: "fst (Uvarint (AppendUvarint n)) = n"
    by (simp add: Uvarint_AppendUvarint)
  have e: "AppendUvarint 42 = [CHR 0x2A]"
    by code_simp
  have c: "dumpOneEntry InternalKeyKindIngestSST [CHR 0x2A] [] =
     [Stdout (''000001.log'' @ [CHR ''\<newline>'']),
      Stdout (''0(7) seq=5 count=1'' @ [CHR ''\<newline>'']),
      Stdout (''    IngestSST(42)'' @ [CHR ''\<newline>'']),
      Stdout (''EOF'' @ [CHR ''\<newline>''])]"
    by (simp add: dumpOneEntry_def run_example)
  show ?thesis
    using a [of ukey] a [of "AppendUvarint n"] e c by (simp only: b)
qed

text \<open>
  C7. A RangeDelete entry prints the start key and the end key, the end key taken from
  the value field, both through the key formatter, with a comma between them. With the
  quoted key formatter a log with the range deletion from \<^verbatim>\<open>a\<close> to \<^verbatim>\<open>z\<close> is dumped
  with the line \<^verbatim>\<open>RangeDelete("a","z")\<close>.
\<close>

theorem rangeDelete_prints_start_and_end:
  "dumpEntries w p arg b (NextOk InternalKeyKindRangeDelete ukey val r) idx =
     Stdout (''    '' @ kindString p InternalKeyKindRangeDelete @ ''(''
             @ fmtKey w ukey @ '','' @ fmtKey w val @ '')'' @ [CHR ''\<newline>''])
     # dumpEntries w p arg b r (idx + 1) \<and>
   dumpOneEntry InternalKeyKindRangeDelete ''a'' ''z'' =
     [Stdout (''000001.log'' @ [CHR ''\<newline>'']),
      Stdout (''0(7) seq=5 count=1'' @ [CHR ''\<newline>'']),
      Stdout (''    RangeDelete('' @ [CHR 0x22] @ ''a'' @ [CHR 0x22] @ '',''
              @ [CHR 0x22] @ ''z'' @ [CHR 0x22] @ '')'' @ [CHR ''\<newline>'']),
      Stdout (''EOF'' @ [CHR ''\<newline>''])]"
proof -
  have a: "dumpEntries w p arg b (NextOk InternalKeyKindRangeDelete ukey val r) idx =
     Stdout (''    '' @ kindString p InternalKeyKindRangeDelete @ ''(''
             @ fmtKey w ukey @ '','' @ fmtKey w val @ '')'' @ [CHR ''\<newline>''])
     # dumpEntries w p arg b r (idx + 1)"
    by (simp add: entryLine_def entryPayload_def)
  have c: "dumpOneEntry InternalKeyKindRangeDelete ''a'' ''z'' =
     [Stdout (''000001.log'' @ [CHR ''\<newline>'']),
      Stdout (''0(7) seq=5 count=1'' @ [CHR ''\<newline>'']),
      Stdout (''    RangeDelete('' @ [CHR 0x22] @ ''a'' @ [CHR 0x22] @ '',''
              @ [CHR 0x22] @ ''z'' @ [CHR 0x22] @ '')'' @ [CHR ''\<newline>'']),
      Stdout (''EOF'' @ [CHR ''\<newline>''])]"
    by (simp add: dumpOneEntry_def run_example)
  show ?thesis using a c by blast
qed

text \<open>
  C8. A Set entry and a Merge entry print the formatted key, a comma and the formatted
  value, the value formatter being applied to the key and the value. \<open>newWAL\<close> sets the
  quoted key formatter and the size value formatter, and with them a log with the Set of
  key \<^verbatim>\<open>k\<close> to a value of three bytes is dumped with the line \<^verbatim>\<open>Set("k",3)\<close>.
\<close>

theorem set_and_merge_print_key_and_value:
  "dumpEntries w p arg b (NextOk InternalKeyKindSet ukey val r) idx =
     Stdout (''    '' @ kindString p InternalKeyKindSet @ ''(''
             @ fmtKey w ukey @ '','' @ fmtValue w ukey val @ '')'' @ [CHR ''\<newline>''])
     # dumpEntries w p arg b r (idx + 1) \<and>
   dumpEntries w p arg b (NextOk InternalKeyKindMerge ukey val r) idx =
     Stdout (''    '' @ kindString p InternalKeyKindMerge @ ''(''
             @ fmtKey w ukey @ '','' @ fmtValue w ukey val @ '')'' @ [CHR ''\<newline>''])
     # dumpEntries w p arg b r (idx + 1) \<and>
   fmtKey (newWAL fs cmps dflt) = formatKeyQuoted \<and>
   fmtValue (newWAL fs cmps dflt) = formatValueSize \<and>
   dumpOneEntry InternalKeyKindSet ''k'' ''abc'' =
     [Stdout (''000001.log'' @ [CHR ''\<newline>'']),
      Stdout (''0(7) seq=5 count=1'' @ [CHR ''\<newline>'']),
      Stdout (''    Set('' @ [CHR 0x22] @ ''k'' @ [CHR 0x22] @ '',3)'' @ [CHR ''\<newline>'']),
      Stdout (''EOF'' @ [CHR ''\<newline>''])]"
proof -
  have a: "dumpEntries w p arg b (NextOk InternalKeyKindSet ukey val r) idx =
     Stdout (''    '' @ kindString p InternalKeyKindSet @ ''(''
             @ fmtKey w ukey @ '','' @ fmtValue w ukey val @ '')'' @ [CHR ''\<newline>''])
     # dumpEntries w p arg b r (idx + 1)"
    by (simp add: entryLine_def entryPayload_def)
  have b: "dumpEntries w p arg b (NextOk InternalKeyKindMerge ukey val r) idx =
     Stdout (''    '' @ kindString p InternalKeyKindMerge @ ''(''
             @ fmtKey w ukey @ '','' @ fmtValue w ukey val @ '')'' @ [CHR ''\<newline>''])
     # dumpEntries w p arg b r (idx + 1)"
    by (simp add: entryLine_def entryPayload_def)
  have n: "fmtKey (newWAL fs cmps dflt) = formatKeyQuoted"
    "fmtValue (newWAL fs cmps dflt) = formatValueSize"
    by (simp_all add: newWAL_def)
  have c: "dumpOneEntry InternalKeyKindSet ''k'' ''abc'' =
     [Stdout (''000001.log'' @ [CHR ''\<newline>'']),
      Stdout (''0(7) seq=5 count=1'' @ [CHR ''\<newline>'']),
      Stdout (''    Set('' @ [CHR 0x22] @ ''k'' @ [CHR 0x22] @ '',3)'' @ [CHR ''\<newline>'']),
      Stdout (''EOF'' @ [CHR ''\<newline>''])]"
    by (simp add: dumpOneEntry_def run_example)
  show ?thesis using a b n c by blast
qed

subsection \<open>File names that do not parse\<close>

text \<open>
  C9. When \<open>ParseFilename\<close> does not accept the path, the file number is 0 whatever
  number came back with the refusal, and the file is opened and read as any other: the
  record reader is made with file number 0.
\<close>

theorem unparsed_name_falls_back_to_zero:
  assumes "\<not> snd (ParseFilename p (FS w) arg)"
  shows "fileNumFor w p arg = 0 \<and>
    dumpFile w p arg =
      (case Open p (FS w) arg of
         Inl err \<Rightarrow> [Stderr (Error p err @ [CHR ''\<newline>''])]
       | Inr f \<Rightarrow> Stdout (arg @ [CHR ''\<newline>'']) # dumpRecords w p arg (NewReader p f 0))"
  using assms by (cases "ParseFilename p (FS w) arg") (simp add: dumpFile_def fileNumFor_def)

subsection \<open>Varints that do not decode\<close>

text \<open>
  C10. \<open>Uvarint\<close> says that it failed by a second result that is not positive, and
  \<open>runDump\<close> drops that result. The number is 0 then: an IngestSST entry whose key is
  not a varint prints file number 0, a DeleteSized entry whose value is not a varint
  prints the key and the size 0. The line is an entry line as any other, no error is
  printed, and the entry loop goes on.
\<close>

theorem invalid_varint_prints_zero:
  "(snd (Uvarint ukey) \<le> 0 \<longrightarrow>
      dumpEntries w p arg b (NextOk InternalKeyKindIngestSST ukey val r) idx =
        Stdout (''    '' @ kindString p InternalKeyKindIngestSST @ ''('' @ fileNumString p 0
                @ '')'' @ [CHR ''\<newline>''])
        # dumpEntries w p arg b r (idx + 1)) \<and>
   (snd (Uvarint val) \<le> 0 \<longrightarrow>
      dumpEntries w p arg b (NextOk InternalKeyKindDeleteSized ukey val r) idx =
        Stdout (''    '' @ kindString p InternalKeyKindDeleteSized @ ''('' @ fmtKey w ukey
                @ '',0)'' @ [CHR ''\<newline>''])
        # dumpEntries w p arg b r (idx + 1))"
proof -
  have z: "fst (Uvarint buf) = 0" if "snd (Uvarint buf) \<le> 0" for buf
    using that Uvarint_loop_fail [of buf 0 0 0] by (simp add: Uvarint_def)
  have d0: "decimal 0 = ''0''"
    by (simp add: decimal.simps digit_def)
  show ?thesis
    by (simp add: entryLine_def entryPayload_def z d0)
qed

subsection \<open>The properties at concrete inputs\<close>

theorem wellformed_batch_entry_lines_witness:
  "wellFormedBatch twoEntryBatch \<and>
   SetRepr (worldPkgs [(''payload'', twoEntryBatch)]) ''payload'' = Inr twoEntryBatch \<and>
   length (dumpEntries (newWAL exampleLogs () []) (worldPkgs [(''payload'', twoEntryBatch)])
             ''000001.log'' twoEntryBatch (Reader twoEntryBatch) 0) = 2 \<and>
   dumpEntries (newWAL exampleLogs () []) (worldPkgs [(''payload'', twoEntryBatch)])
             ''000001.log'' twoEntryBatch (Reader twoEntryBatch) 0 ! 1 =
     Stdout (''    RangeKeySet(z)'' @ [CHR ''\<newline>'']) \<and>
   unat (ikSeqNum (MakeInternalKey ''a'' (SeqNum twoEntryBatch + of_nat 1)
                     InternalKeyKindRangeKeySet)) = 6 \<and>
   dumpRecords (newWAL exampleLogs () []) (worldPkgs [(''payload'', twoEntryBatch)])
       ''000001.log'' (RecNext 0 ''payload'' (RecErr 18 (ErrOther ''EOF''))) =
     [Stdout (''0(7) seq=5 count=2'' @ [CHR ''\<newline>'']),
      Stdout (''    Set('' @ [CHR 0x22] @ ''k'' @ [CHR 0x22] @ '',3)'' @ [CHR ''\<newline>'']),
      Stdout (''    RangeKeySet(z)'' @ [CHR ''\<newline>'']),
      Stdout (''EOF'' @ [CHR ''\<newline>''])]"
proof -
  let ?p = "worldPkgs [(''payload'', twoEntryBatch)]"
  let ?w = "newWAL exampleLogs () []"
  let ?out = "dumpEntries ?w ?p ''000001.log'' twoEntryBatch (Reader twoEntryBatch) 0"
  have wf: "wellFormedBatch twoEntryBatch"
    by (simp add: wellFormedBatch_def twoEntryBatch_def)
  have sr: "SetRepr ?p ''payload'' = Inr twoEntryBatch"
    by (simp add: worldPkgs_def)
  have c: "unat (Count twoEntryBatch) = 2" and s: "unat (SeqNum twoEntryBatch) = 5"
    and r: "length (Repr twoEntryBatch) = 7"
    and e0: "entries (Reader twoEntryBatch) ! 0 = (InternalKeyKindSet, ''k'', ''abc'')"
    and e1: "entries (Reader twoEntryBatch) ! 1 = (InternalKeyKindRangeKeySet, ''a'', ''z'')"
    by (simp_all add: twoEntryBatch_def)
  have i0: "(0::nat) < unat (Count twoEntryBatch)" and i1: "(1::nat) < unat (Count twoEntryBatch)"
    by (simp_all add: c)
  have d: "rangekeyDecode ?p ik ''z'' = Inr ''z''" for ik
    by (simp add: worldPkgs_def)
  have k: "kindString ?p InternalKeyKindRangeKeySet = ''RangeKeySet''"
    "kindString ?p InternalKeyKindSet = ''Set''"
    and q: "Pretty ?p ''z'' f = ''z''" for f
    by (simp_all add: worldPkgs_def)
  have p0: "entryPayload ?w ?p twoEntryBatch 0 InternalKeyKindSet ''k'' ''abc''
      = [CHR 0x22] @ ''k'' @ [CHR 0x22] @ '',3''"
    by (simp add: entryPayload_def newWAL_def formatKeyQuoted_def formatValueSize_def
        decimal.simps digit_def)
  have fl: "failureLine ?p (ErrOther ''EOF'') = ''EOF'' @ [CHR ''\<newline>'']"
    by (simp add: failureLine_def worldPkgs_def)
  have dc: "decimal 0 = ''0''" "decimal 7 = ''7''" "decimal 5 = ''5''" "decimal 2 = ''2''"
    by (simp_all add: decimal.simps digit_def)
  note t = wellformed_batch_entry_lines [OF wf, where w = ?w and p = ?p
      and arg = "''000001.log''" and buf = "''payload''" and offset = 0
      and rr = "RecErr 18 (ErrOther ''EOF'')"]
  note t1 = t [THEN conjunct1]
  note all = t [THEN conjunct2, THEN conjunct1, rule_format]
  note t20 = all [OF i0, unfolded e0 prod.case]
  note t21 = all [OF i1, unfolded e1 prod.case]
  note t3 = t [THEN conjunct2, THEN conjunct2, rule_format, OF sr]
  have m: "InternalKeyKindRangeKeySet \<in> {InternalKeyKindRangeKeySet,
      InternalKeyKindRangeKeyUnset, InternalKeyKindRangeKeyDelete}"
    by simp
  note t4 = t21 [THEN conjunct2, rule_format, OF m]
  have l: "length ?out = 2"
    using t1 by (simp only: c)
  have p1: "entryPayload ?w ?p twoEntryBatch 1 InternalKeyKindRangeKeySet ''a'' ''z'' = ''z''"
    using t4 [THEN conjunct1] by (simp only: d sum.case q)
  have l0: "?out ! 0 =
      Stdout (''    Set('' @ [CHR 0x22] @ ''k'' @ [CHR 0x22] @ '',3)'' @ [CHR ''\<newline>''])"
    using t20 [THEN conjunct1] by (simp only: p0 k) simp
  have l1: "?out ! 1 = Stdout (''    RangeKeySet(z)'' @ [CHR ''\<newline>''])"
    using t21 [THEN conjunct1] by (simp only: p1 k) simp
  have sq: "unat (ikSeqNum (MakeInternalKey ''a'' (SeqNum twoEntryBatch + of_nat 1)
                     InternalKeyKindRangeKeySet)) = 6"
    using t4 [THEN conjunct2] by (simp only: s) simp
  have outv: "?out =
     [Stdout (''    Set('' @ [CHR 0x22] @ ''k'' @ [CHR 0x22] @ '',3)'' @ [CHR ''\<newline>'']),
      Stdout (''    RangeKeySet(z)'' @ [CHR ''\<newline>''])]"
    by (simp add: run_example twoEntryBatch_def)
  have rec: "dumpRecords ?w ?p ''000001.log'' (RecNext 0 ''payload'' (RecErr 18 (ErrOther ''EOF''))) =
     [Stdout (''0(7) seq=5 count=2'' @ [CHR ''\<newline>'']),
      Stdout (''    Set('' @ [CHR 0x22] @ ''k'' @ [CHR 0x22] @ '',3)'' @ [CHR ''\<newline>'']),
      Stdout (''    RangeKeySet(z)'' @ [CHR ''\<newline>'']),
      Stdout (''EOF'' @ [CHR ''\<newline>''])]"
    using t3 by (simp only: outv c s r dc dumpRecords.simps(1) fl) simp
  show ?thesis
    using wf sr l l1 sq rec by blast
qed

theorem record_source_failure_ends_file_witness:
  "Open (worldPkgs [(''payload'', oneEntryBatch InternalKeyKindDelete ''d'' [])])
        (FS (newWAL exampleLogs () [])) ''000003.log''
     = Inr (RecNext 0 ''payload'' (RecErr 18 ErrZeroedChunk)) \<and>
   allSetRepr (worldPkgs [(''payload'', oneEntryBatch InternalKeyKindDelete ''d'' [])])
     (RecNext 0 ''payload'' (RecErr 18 ErrZeroedChunk)) \<and>
   noPanic (worldPkgs [(''payload'', oneEntryBatch InternalKeyKindDelete ''d'' [])])
     (RecNext 0 ''payload'' (RecErr 18 ErrZeroedChunk)) \<and>
   (\<exists>pre. runDump (newWAL exampleLogs () [])
            (worldPkgs [(''payload'', oneEntryBatch InternalKeyKindDelete ''d'' [])])
            [''000003.log'', ''000004.log''] =
      pre @ [Stdout (''EOF [ZeroedChunk] (may be due to WAL preallocation)''
                     @ [CHR ''\<newline>''])]
        @ [Stdout (''000004.log'' @ [CHR ''\<newline>'']),
           Stdout (''EOF [InvalidChunk] (may be due to WAL recycling)''
                   @ [CHR ''\<newline>''])])"
proof -
  let ?p = "worldPkgs [(''payload'', oneEntryBatch InternalKeyKindDelete ''d'' [])]"
  let ?w = "newWAL exampleLogs () []"
  let ?rr = "RecNext 0 ''payload'' (RecErr 18 ErrZeroedChunk)"
  have op: "Open ?p (FS ?w) ''000003.log'' = Inr ?rr"
    by (simp add: worldPkgs_def newWAL_def openIn_def exampleLogs_def)
  have nr: "NewReader ?p ?rr (fileNumFor ?w ?p ''000003.log'') = ?rr"
    by (simp add: worldPkgs_def)
  have ok: "allSetRepr ?p ?rr"
    by (simp add: worldPkgs_def)
  have np: "noPanic ?p ?rr"
    by (simp add: worldPkgs_def oneEntryBatch_def)
  have fl: "failureLine ?p (failure ?rr) =
      ''EOF [ZeroedChunk] (may be due to WAL preallocation)'' @ [CHR ''\<newline>'']"
    by (simp add: failureLine_def worldPkgs_def)
  have rest: "runDump ?w ?p [''000004.log''] =
      [Stdout (''000004.log'' @ [CHR ''\<newline>'']),
       Stdout (''EOF [InvalidChunk] (may be due to WAL recycling)'' @ [CHR ''\<newline>''])]"
    by (simp add: run_example)
  from record_source_failure_ends_file [of ?w ?p "''000003.log''" 0 ErrZeroedChunk "[]"
      ?rr "[''000004.log'']"]
  have "Open ?p (FS ?w) ''000003.log'' = Inr ?rr \<and>
        allSetRepr ?p (NewReader ?p ?rr (fileNumFor ?w ?p ''000003.log'')) \<and>
        noPanic ?p (NewReader ?p ?rr (fileNumFor ?w ?p ''000003.log'')) \<longrightarrow>
      (\<exists>pre. runDump ?w ?p [''000003.log'', ''000004.log''] =
         pre @ [Stdout (failureLine ?p
                  (failure (NewReader ?p ?rr (fileNumFor ?w ?p ''000003.log''))))]
           @ runDump ?w ?p [''000004.log''])"
    by blast
  then have "\<exists>pre. runDump ?w ?p [''000003.log'', ''000004.log''] =
         pre @ [Stdout (failureLine ?p (failure ?rr))] @ runDump ?w ?p [''000004.log'']"
    using op ok np by (simp only: nr)
  then show ?thesis
    using op ok np by (simp only: fl rest)
qed


theorem rangekey_decode_failure_is_one_line_witness:
  "InternalKeyKindRangeKeyUnset \<in> {InternalKeyKindRangeKeySet, InternalKeyKindRangeKeyUnset,
                                     InternalKeyKindRangeKeyDelete} \<and>
   rangekeyDecode (worldPkgs [])
     (MakeInternalKey ''k'' (SeqNum (oneEntryBatch InternalKeyKindRangeKeyUnset ''k'' [])
        + of_nat 0) InternalKeyKindRangeKeyUnset) []
     = Inl (ErrOther ''unable to decode range key end'') \<and>
   dumpEntries (newWAL exampleLogs () []) (worldPkgs []) ''000001.log''
     (oneEntryBatch InternalKeyKindRangeKeyUnset ''k'' [])
     (NextOk InternalKeyKindRangeKeyUnset ''k'' []
        (NextOk InternalKeyKindDelete ''d'' [] NextEnd)) 0 =
     [Stdout (''    RangeKeyUnset('' @ [CHR 0x22] @ ''k'' @ [CHR 0x22]
              @ '': error decoding unable to decode range key end)'' @ [CHR ''\<newline>'']),
      Stdout (''    Delete('' @ [CHR 0x22] @ ''d'' @ [CHR 0x22] @ '')'' @ [CHR ''\<newline>''])]"
proof -
  let ?b = "oneEntryBatch InternalKeyKindRangeKeyUnset ''k'' []"
  have m: "InternalKeyKindRangeKeyUnset \<in> {InternalKeyKindRangeKeySet,
      InternalKeyKindRangeKeyUnset, InternalKeyKindRangeKeyDelete}"
    by simp
  have d: "rangekeyDecode (worldPkgs [])
     (MakeInternalKey ''k'' (SeqNum ?b + of_nat 0) InternalKeyKindRangeKeyUnset) []
     = Inl (ErrOther ''unable to decode range key end'')"
    by (simp add: worldPkgs_def)
  have rest: "dumpEntries (newWAL exampleLogs () []) (worldPkgs []) ''000001.log'' ?b
      (NextOk InternalKeyKindDelete ''d'' [] NextEnd) (0 + 1) =
      [Stdout (''    Delete('' @ [CHR 0x22] @ ''d'' @ [CHR 0x22] @ '')'' @ [CHR ''\<newline>''])]"
    by (simp add: run_example)
  have f: "fmtKey (newWAL exampleLogs () []) ''k'' = [CHR 0x22] @ ''k'' @ [CHR 0x22]"
    "kindString (worldPkgs []) InternalKeyKindRangeKeyUnset = ''RangeKeyUnset''"
    "Error (worldPkgs []) (ErrOther ''unable to decode range key end'')
       = ''unable to decode range key end''"
    by (simp_all add: newWAL_def worldPkgs_def formatKeyQuoted_def)
  from rangekey_decode_failure_is_one_line [OF m d, of "newWAL exampleLogs () []"
      "''000001.log''" "NextOk InternalKeyKindDelete ''d'' [] NextEnd"]
  show ?thesis
    using m d by (simp only: rest f) simp
qed

theorem unparsed_name_falls_back_to_zero_witness:
  "\<not> snd (ParseFilename (worldPkgs [(''payload'', oneEntryBatch InternalKeyKindDelete ''d'' [])])
            (FS (newWAL exampleLogs () [])) ''000001.log'') \<and>
   fst (ParseFilename (worldPkgs [(''payload'', oneEntryBatch InternalKeyKindDelete ''d'' [])])
            (FS (newWAL exampleLogs () [])) ''000001.log'') = 7 \<and>
   fileNumFor (newWAL exampleLogs () [])
     (worldPkgs [(''payload'', oneEntryBatch InternalKeyKindDelete ''d'' [])]) ''000001.log'' = 0 \<and>
   dumpFile (newWAL exampleLogs () [])
     (worldPkgs [(''payload'', oneEntryBatch InternalKeyKindDelete ''d'' [])]) ''000001.log'' =
     [Stdout (''000001.log'' @ [CHR ''\<newline>'']),
      Stdout (''0(7) seq=5 count=1'' @ [CHR ''\<newline>'']),
      Stdout (''    Delete('' @ [CHR 0x22] @ ''d'' @ [CHR 0x22] @ '')'' @ [CHR ''\<newline>'']),
      Stdout (''EOF'' @ [CHR ''\<newline>''])]"
proof -
  let ?p = "worldPkgs [(''payload'', oneEntryBatch InternalKeyKindDelete ''d'' [])]"
  let ?w = "newWAL exampleLogs () []"
  let ?rr = "RecNext 0 ''payload'' (RecErr 18 (ErrOther ''EOF''))"
  have h: "\<not> snd (ParseFilename ?p (FS ?w) ''000001.log'')"
    and n: "fst (ParseFilename ?p (FS ?w) ''000001.log'') = 7"
    by (simp_all add: worldPkgs_def)
  have op: "Open ?p (FS ?w) ''000001.log'' = Inr ?rr"
    by (simp add: worldPkgs_def newWAL_def openIn_def exampleLogs_def)
  have nr: "NewReader ?p f 0 = f" for f
    by (simp add: worldPkgs_def)
  have recs: "dumpRecords ?w ?p ''000001.log'' ?rr =
     [Stdout (''0(7) seq=5 count=1'' @ [CHR ''\<newline>'']),
      Stdout (''    Delete('' @ [CHR 0x22] @ ''d'' @ [CHR 0x22] @ '')'' @ [CHR ''\<newline>'']),
      Stdout (''EOF'' @ [CHR ''\<newline>''])]"
    by (simp add: run_example)
  from unparsed_name_falls_back_to_zero [OF h]
  show ?thesis
    using h n by (simp only: op sum.case nr recs) simp
qed

theorem invalid_varint_prints_zero_witness:
  "snd (Uvarint []) \<le> 0 \<and> snd (Uvarint [CHR 0x80]) \<le> 0 \<and>
   dumpEntries (newWAL exampleLogs () []) (worldPkgs []) ''000001.log''
     (oneEntryBatch InternalKeyKindIngestSST [] [])
     (NextOk InternalKeyKindIngestSST [] []
        (NextOk InternalKeyKindDeleteSized ''k'' [CHR 0x80] NextEnd)) 0 =
     [Stdout (''    IngestSST(0)'' @ [CHR ''\<newline>'']),
      Stdout (''    DeleteSized('' @ [CHR 0x22] @ ''k'' @ [CHR 0x22] @ '',0)''
              @ [CHR ''\<newline>''])]"
proof -
  let ?p = "worldPkgs [] :: (world, RecordReader, unit, string) pkgs"
  let ?w = "newWAL exampleLogs () []"
  let ?b = "oneEntryBatch InternalKeyKindIngestSST [] []"
  have h1: "snd (Uvarint []) \<le> 0" and h2: "snd (Uvarint [CHR 0x80]) \<le> 0"
    by (simp_all add: Uvarint_def MaxVarintLen64_def)
  have f: "fmtKey ?w ''k'' = [CHR 0x22] @ ''k'' @ [CHR 0x22]"
    "kindString ?p InternalKeyKindIngestSST = ''IngestSST''"
    "kindString ?p InternalKeyKindDeleteSized = ''DeleteSized''"
    "fileNumString ?p 0 = ''0''"
    by (simp_all add: newWAL_def worldPkgs_def formatKeyQuoted_def FileNum_String_def
        decimal.simps digit_def)
  from invalid_varint_prints_zero [where p = ?p and w = ?w and b = ?b
      and arg = "''000001.log''" and ukey = "[]" and val = "[]"
      and r = "NextOk InternalKeyKindDeleteSized ''k'' [CHR 0x80] NextEnd" and idx = 0] h1
  have a: "dumpEntries ?w ?p ''000001.log'' ?b
     (NextOk InternalKeyKindIngestSST [] []
        (NextOk InternalKeyKindDeleteSized ''k'' [CHR 0x80] NextEnd)) 0 =
     Stdout (''    '' @ kindString ?p InternalKeyKindIngestSST @ ''('' @ fileNumString ?p 0
                @ '')'' @ [CHR ''\<newline>''])
     # dumpEntries ?w ?p ''000001.log'' ?b
         (NextOk InternalKeyKindDeleteSized ''k'' [CHR 0x80] NextEnd) (0 + 1)"
    by blast
  from invalid_varint_prints_zero [where p = ?p and w = ?w and b = ?b
      and arg = "''000001.log''" and ukey = "''k''" and val = "[CHR 0x80]"
      and r = NextEnd and idx = "0 + 1"] h2
  have b: "dumpEntries ?w ?p ''000001.log'' ?b
         (NextOk InternalKeyKindDeleteSized ''k'' [CHR 0x80] NextEnd) (0 + 1) =
     Stdout (''    '' @ kindString ?p InternalKeyKindDeleteSized @ ''('' @ fmtKey ?w ''k''
                @ '',0)'' @ [CHR ''\<newline>''])
     # dumpEntries ?w ?p ''000001.log'' ?b NextEnd (0 + 1 + 1)"
    by blast
  show ?thesis
    using h1 h2 by (simp only: a b f dumpEntries.simps(1)) simp
qed

end
